theory Spec2Isabelle
  imports Main "HOL-Library.AList"
begin

section \<open>Configuration model (\<open>www/model/server\<close>)\<close>

text \<open>
  The shapes \<open>ShadowsocksConfig\<close>, \<open>ProxyConfigSource\<close> and \<open>ServerConfig\<close> are
  imported by the sources from \<open>../model/server\<close>. Their use in the sources fixes the
  fields: \<open>host\<close>, \<open>port\<close>, \<open>password\<close>, \<open>method\<close>, \<open>name\<close> on a proxy
  (\<open>method\<close> may be \<open>undefined\<close>: \<open>isServerCipherSupported(cipher?: string)\<close>),
  \<open>url\<close> on a source, and \<open>name\<close>, \<open>proxy\<close>, \<open>source\<close> on a config. An optional
  property is an \<open>option\<close>; \<open>None\<close> is \<open>undefined\<close>, so \<open>=\<close> on options is the
  strict equality \<open>===\<close> of the sources. The number \<open>port\<close> is an \<open>int\<close>.
  The \<open>name\<close> of a proxy is the field \<open>proxy_name\<close>, its \<open>method\<close> the field
  \<open>method'\<close>, the \<open>id\<close> of a server the field \<open>server_id\<close>.
\<close>

record ShadowsocksConfig =
  host :: "string option"
  port :: "int option"
  password :: "string option"
  method' :: "string option"
  proxy_name :: "string option"

record ProxyConfigSource =
  url :: string

record ServerConfig =
  name :: "string option"
  proxy :: "ShadowsocksConfig option"
  source :: "ProxyConfigSource option"

subsection \<open>\<open>configsMatch\<close> and the cipher allow-list\<close>

text \<open>
  \<^verbatim>\<open>
  function configsMatch(left: ServerConfig, right: ServerConfig) {
    if (left.source && right.source) {
      return left.source.url === right.source.url;
    } else if (left.proxy && right.proxy) {
      return left.proxy.host === right.proxy.host && left.proxy.port === right.proxy.port &&
          left.proxy.method === right.proxy.method && left.proxy.password === right.proxy.password;
    }
    return false;
  }
  \<close>
\<close>

definition configsMatch :: "ServerConfig \<Rightarrow> ServerConfig \<Rightarrow> bool" where
  "configsMatch left right =
     (case (source left, source right) of
        (Some ls, Some rs) \<Rightarrow> url ls = url rs
      | _ \<Rightarrow>
        (case (proxy left, proxy right) of
           (Some lp, Some rp) \<Rightarrow>
             host lp = host rp \<and> port lp = port rp \<and> method' lp = method' rp \<and>
             password lp = password rp
         | _ \<Rightarrow> False))"

definition SUPPORTED_CIPHERS :: "string list" where
  "SUPPORTED_CIPHERS =
     [''chacha20-ietf-poly1305'', ''aes-128-gcm'', ''aes-192-gcm'', ''aes-256-gcm'']"

text \<open>\<open>OutlineServer.isServerCipherSupported(cipher?: string)\<close>:
  \<open>cipher !== undefined && SUPPORTED_CIPHERS.includes(cipher)\<close>.\<close>

definition OutlineServer_isServerCipherSupported :: "string option \<Rightarrow> bool" where
  "OutlineServer_isServerCipherSupported cipher =
     (case cipher of None \<Rightarrow> False | Some c \<Rightarrow> c \<in> set SUPPORTED_CIPHERS)"

text \<open>The module-level \<open>isServerCipherSupported(config)\<close> of the repository.\<close>

definition isServerCipherSupported :: "ServerConfig \<Rightarrow> bool" where
  "isServerCipherSupported config' =
     (case proxy config' of
        None \<Rightarrow> True
      | Some p \<Rightarrow> OutlineServer_isServerCipherSupported (method' p))"

section \<open>Servers, errors and events\<close>

text \<open>
  What the repository sees of a server (\<open>PersistentServer\<close>): its \<open>id\<close>, its
  \<open>config\<close> (for an \<open>OutlineServer\<close> the tunnel's config object) and the annotation
  \<open>errorMessageId\<close>. Across the operations modelled here every server object is held
  in one place (the map or the last-forgotten slot), so objects are values.
\<close>

record Server =
  server_id :: string
  config :: ServerConfig
  errorMessageId :: "string option"

text \<open>
  The setter \<open>OutlineServer.name\<close>:
  \<^verbatim>\<open>
  set name(newName: string) {
    this.config.name = newName;
    if (this.config.proxy) {
      this.config.proxy.name = newName;
    }
  }
  \<close>
\<close>

definition set_name :: "string \<Rightarrow> Server \<Rightarrow> Server" where
  "set_name newName s =
     (let c1 = (config s)\<lparr>name := Some newName\<rparr>;
          c2 = (case proxy c1 of
                  None \<Rightarrow> c1
                | Some p \<Rightarrow> c1\<lparr>proxy := Some (p\<lparr>proxy_name := Some newName\<rparr>)\<rparr>)
      in s\<lparr>config := c2\<rparr>)"

text \<open>
  The error kinds the sources raise (\<open>www/model/errors\<close>), with \<open>TypeError\<close> and
  \<open>Error\<close> of the language, and \<open>NativeError\<close> for an error object that comes from
  native code with or without an \<open>errorCode\<close> property.
\<close>

datatype error =
    ServerAlreadyAdded Server
  | ShadowsocksUnsupportedCipher string
  | IllegalServerConfiguration
  | InvalidServerCredentials
  | OutlinePluginError int
  | RegularNativeError
  | TypeError
  | Error string
  | NativeError "int option"

text \<open>The events of \<open>www/model/events\<close>. The event queue is the list of the events
  passed to \<open>enqueue\<close>, oldest first.\<close>

datatype event =
    ServerAdded Server
  | ServerRenamed Server
  | ServerForgotten Server
  | ServerForgetUndone Server
  | ServerConnected Server
  | ServerDisconnected Server
  | ServerReconnecting Server
  | ServerConfigSourceUrlChanged Server string

section \<open>JavaScript objects as dictionaries\<close>

text \<open>
  The sources use plain objects as dictionaries from server ids to configs. An object is
  the list of its own enumerable properties in the order \<open>for ... in\<close> and
  \<open>JSON.stringify\<close> visit them: the keys that are array indices (canonical decimal
  numerals below \<open>2^32 - 1\<close>) first, in ascending numeric order, then the other keys in
  the order they were created.
\<close>

definition decimal :: "string \<Rightarrow> nat" where
  "decimal s = fold (\<lambda>c n. 10 * n + (of_char c - 48)) s 0"

definition arrayIndex :: "string \<Rightarrow> nat option" where
  "arrayIndex s =
     (if s \<noteq> [] \<and> list_all (\<lambda>c. c \<in> set ''0123456789'') s \<and>
         (s = ''0'' \<or> hd s \<noteq> CHR ''0'') \<and> decimal s < 4294967295
      then Some (decimal s) else None)"

text \<open>Whether a new key \<open>k\<close> is enumerated before the present key \<open>e\<close>.\<close>

definition comesBefore :: "string \<Rightarrow> string \<Rightarrow> bool" where
  "comesBefore k e =
     (case arrayIndex k of
        None \<Rightarrow> False
      | Some i \<Rightarrow> (case arrayIndex e of None \<Rightarrow> True | Some j \<Rightarrow> i < j))"

fun objInsert :: "string \<Rightarrow> 'a \<Rightarrow> (string \<times> 'a) list \<Rightarrow> (string \<times> 'a) list" where
  "objInsert k v [] = [(k, v)]"
| "objInsert k v (e # es) =
     (if comesBefore k (fst e) then (k, v) # e # es else e # objInsert k v es)"

text \<open>
  The assignment \<open>o[k] = v\<close> on an object made by \<open>{}\<close>, \<open>v\<close> being an object. For the
  key \<open>'__proto__'\<close> it runs the setter of \<open>Object.prototype\<close>: the prototype of \<open>o\<close>
  becomes \<open>v\<close> and no own property is written. A present key keeps its place and takes
  the new value; a new key is placed by the order above.
\<close>

definition objSet :: "string \<Rightarrow> 'a \<Rightarrow> (string \<times> 'a) list \<Rightarrow> (string \<times> 'a) list" where
  "objSet k v obj =
     (if k = ''__proto__'' then obj
      else if k \<in> set (map fst obj) then AList.update k v obj
      else objInsert k v obj)"

text \<open>The keys of an object are in enumeration order when no key stands after one it
  comes before.\<close>

definition jsOrdered :: "string list \<Rightarrow> bool" where
  "jsOrdered ks = sorted_wrt (\<lambda>a b. \<not> comesBefore b a) ks"

text \<open>
  The call \<open>o.hasOwnProperty(k)\<close> on an object \<open>o\<close> that \<open>JSON.parse\<close> returned: an own
  property \<open>'hasOwnProperty'\<close> of \<open>o\<close> hides the method of \<open>Object.prototype\<close>, and its
  value, parsed from JSON, is not a function, so the call throws a \<open>TypeError\<close>.
  Otherwise the call returns \<open>true\<close> for every key the loop visits, all of them own
  properties.
\<close>

definition hidesHasOwnProperty :: "(string \<times> 'a) list \<Rightarrow> bool" where
  "hidesHasOwnProperty obj = (''hasOwnProperty'' \<in> set (map fst obj))"

section \<open>Storage\<close>

text \<open>
  The repository reads and writes two keys of the injected \<open>Storage\<close>:
  \<open>'servers'\<close> (\<open>SERVERS_STORAGE_KEY_V0\<close>) and \<open>'servers_v1'\<close>
  (\<open>SERVERS_STORAGE_KEY\<close>). A stored string is represented by what \<open>JSON.parse\<close>
  makes of it at the type the sources read that key at (\<open>ConfigByIdV0\<close>,
  \<open>ConfigById\<close>): \<open>Json v\<close>, or \<open>Unparsable s\<close> for a string \<open>s\<close> that
  \<open>JSON.parse\<close> rejects (the empty string is one). \<open>None\<close> is \<open>getItem\<close>
  returning \<open>null\<close>. \<open>JSON.parse\<close> makes every key of the text an own property,
  \<open>'__proto__'\<close> and \<open>'hasOwnProperty'\<close> included. \<open>setItem\<close> is taken to succeed.
\<close>

datatype 'a item = Unparsable string | Json 'a

type_synonym ConfigByIdV0 = "(string \<times> ShadowsocksConfig) list"
type_synonym ConfigById = "(string \<times> ServerConfig) list"

record Storage =
  servers :: "ConfigByIdV0 item option"
  servers_v1 :: "ConfigById item option"

text \<open>Truthiness of \<open>getItem(key)\<close>: \<open>null\<close> and the empty string are falsy.\<close>

fun truthy :: "'a item option \<Rightarrow> bool" where
  "truthy None = False"
| "truthy (Some (Unparsable s)) = (s \<noteq> [])"
| "truthy (Some (Json v)) = True"

text \<open>
  \<open>migrateStorageV1\<close>: skip when the current key holds data; skip when the legacy key
  holds none or does not parse; otherwise write \<open>{proxy, name}\<close> for every legacy
  entry, \<open>name\<close> read from the proxy. The loop calls \<open>configByIdV0.hasOwnProperty\<close>
  in every round, outside the two \<open>try\<close> blocks, so its \<open>TypeError\<close> leaves the
  function: \<open>migrateStorageV1\<close> returns the error it throws (or \<open>None\<close>) and the
  storage afterwards.
  \<^verbatim>\<open>
  for (const serverId in configByIdV0) {
    if (!configByIdV0.hasOwnProperty(serverId)) {
      continue;
    }
    const proxy = configByIdV0[serverId];
    const name = proxy.name;
    configByIdV1[serverId] = {proxy, name};
  }
  \<close>
\<close>

definition migrateEntry :: "string \<times> ShadowsocksConfig \<Rightarrow> ConfigById \<Rightarrow> ConfigById" where
  "migrateEntry e configByIdV1 =
     (let serverId = fst e; proxy' = snd e; name' = proxy_name proxy'
      in objSet serverId \<lparr>name = name', proxy = Some proxy', source = None\<rparr> configByIdV1)"

fun migrateLoop ::
  "ConfigByIdV0 \<Rightarrow> (string \<times> ShadowsocksConfig) list \<Rightarrow> ConfigById \<Rightarrow> error + ConfigById"
where
  "migrateLoop configByIdV0 [] configByIdV1 = Inr configByIdV1"
| "migrateLoop configByIdV0 (e # rest) configByIdV1 =
     (if hidesHasOwnProperty configByIdV0 then Inl TypeError
      else migrateLoop configByIdV0 rest (migrateEntry e configByIdV1))"

definition migrateStorageV1 :: "Storage \<Rightarrow> error option \<times> Storage" where
  "migrateStorageV1 st =
     (if truthy (servers_v1 st) then (None, st)
      else if \<not> truthy (servers st) then (None, st)
      else (case servers st of
              Some (Json configByIdV0) \<Rightarrow>
                (case migrateLoop configByIdV0 configByIdV0 [] of
                   Inl e \<Rightarrow> (Some e, st)
                 | Inr configByIdV1 \<Rightarrow> (None, st\<lparr>servers_v1 := Some (Json configByIdV1)\<rparr>))
            | _ \<Rightarrow> (None, st)))"

section \<open>The repository (\<open>PersistentServerRepository\<close>)\<close>

text \<open>
  \<open>serverById\<close> is a JavaScript \<open>Map\<close>: the list of its entries in insertion order,
  \<open>get\<close> is \<open>map_of\<close>, \<open>set\<close> is \<open>AList.update\<close> (a present key keeps its place, a
  new key goes last), \<open>delete\<close> is \<open>AList.delete\<close>. The injected factory
  \<open>createServer\<close> and the identifier \<open>uuidv4()\<close> returns are parameters; the factory
  returns the server or the error it throws.
\<close>

record Repository =
  serverById :: "(string \<times> Server) list"
  lastForgottenServer :: "Server option"
  eventQueue :: "event list"
  storage :: Storage

type_synonym PersistentServerFactory = "string \<Rightarrow> ServerConfig \<Rightarrow> error + Server"

definition getAll :: "Repository \<Rightarrow> Server list" where
  "getAll r = map snd (serverById r)"

definition getById :: "Repository \<Rightarrow> string \<Rightarrow> Server option" where
  "getById r serverId = map_of (serverById r) serverId"

definition enqueue :: "event \<Rightarrow> Repository \<Rightarrow> Repository" where
  "enqueue e r = r\<lparr>eventQueue := eventQueue r @ [e]\<rparr>"

text \<open>The loop of \<open>serverFromConfig\<close>: the first server, in the order of
  \<open>getAll()\<close>, whose config matches.\<close>

fun firstMatch :: "Server list \<Rightarrow> ServerConfig \<Rightarrow> Server option" where
  "firstMatch [] c = None"
| "firstMatch (server # rest) c =
     (if configsMatch (config server) c then Some server else firstMatch rest c)"

definition serverFromConfig :: "Repository \<Rightarrow> ServerConfig \<Rightarrow> Server option" where
  "serverFromConfig r c = firstMatch (getAll r) c"

definition containsServer :: "Repository \<Rightarrow> ServerConfig \<Rightarrow> bool" where
  "containsServer r c = (serverFromConfig r c \<noteq> None)"

text \<open>
  \<open>storeServers\<close>: the object built from the servers of the map, in the order of the
  map, and written under the current key.
  \<^verbatim>\<open>
  const configById: ConfigById = {};
  for (const server of this.serverById.values()) {
    configById[server.id] = server.config;
  }
  \<close>
\<close>

definition configByIdOf :: "Server list \<Rightarrow> ConfigById" where
  "configByIdOf ss = fold (\<lambda>server obj. objSet (server_id server) (config server) obj) ss []"

definition storeServers :: "Repository \<Rightarrow> Repository" where
  "storeServers r =
     r\<lparr>storage := (storage r)\<lparr>servers_v1 := Some (Json (configByIdOf (getAll r)))\<rparr>\<rparr>"

text \<open>\<open>serverConfig.proxy?.method || 'unknown'\<close>: an absent proxy, an absent method
  and the empty method all give \<open>'unknown'\<close>.\<close>

definition methodOrUnknown :: "ServerConfig \<Rightarrow> string" where
  "methodOrUnknown c =
     (case proxy c of
        None \<Rightarrow> ''unknown''
      | Some p \<Rightarrow> (case method' p of
                    None \<Rightarrow> ''unknown''
                  | Some m \<Rightarrow> if m = [] then ''unknown'' else m))"

text \<open>
  \<open>add\<close> returns the error it throws (or \<open>None\<close>) and the repository afterwards.
\<close>

definition add ::
  "PersistentServerFactory \<Rightarrow> string \<Rightarrow> Repository \<Rightarrow> ServerConfig \<Rightarrow> error option \<times> Repository"
where
  "add createServer uuid r serverConfig =
     (case serverFromConfig r serverConfig of
        Some alreadyAddedServer \<Rightarrow> (Some (ServerAlreadyAdded alreadyAddedServer), r)
      | None \<Rightarrow>
          if \<not> isServerCipherSupported serverConfig
          then (Some (ShadowsocksUnsupportedCipher (methodOrUnknown serverConfig)), r)
          else (case createServer uuid serverConfig of
                  Inl e \<Rightarrow> (Some e, r)
                | Inr server \<Rightarrow>
                    (None,
                     enqueue (ServerAdded server)
                       (storeServers
                          (r\<lparr>serverById :=
                               AList.update (server_id server) server (serverById r)\<rparr>)))))"

text \<open>\<open>update\<close>, \<open>rename\<close>, \<open>forget\<close> and \<open>undoForget\<close> contain no \<open>throw\<close>: they
  return the repository afterwards. A server found by \<open>get\<close> is mutated in place.\<close>

definition update :: "Repository \<Rightarrow> string \<Rightarrow> ServerConfig \<Rightarrow> Repository" where
  "update r serverId config' =
     (case getById r serverId of
        None \<Rightarrow> r
      | Some server \<Rightarrow>
          if map_option url (source config') = map_option url (source (config server)) then r
          else storeServers
                 (r\<lparr>serverById :=
                      AList.update serverId
                        (server\<lparr>config := (config server)\<lparr>source := source config'\<rparr>\<rparr>)
                        (serverById r)\<rparr>))"

definition rename :: "Repository \<Rightarrow> string \<Rightarrow> string \<Rightarrow> Repository" where
  "rename r serverId newName =
     (case getById r serverId of
        None \<Rightarrow> r
      | Some server \<Rightarrow>
          (let server' = set_name newName server
           in enqueue (ServerRenamed server')
                (storeServers
                   (r\<lparr>serverById := AList.update serverId server' (serverById r)\<rparr>))))"

definition forget :: "Repository \<Rightarrow> string \<Rightarrow> Repository" where
  "forget r serverId =
     (case getById r serverId of
        None \<Rightarrow> r
      | Some server \<Rightarrow>
          enqueue (ServerForgotten server)
            (storeServers
               (r\<lparr>serverById := AList.delete serverId (serverById r),
                  lastForgottenServer := Some server\<rparr>)))"

definition undoForget :: "Repository \<Rightarrow> string \<Rightarrow> Repository" where
  "undoForget r serverId =
     (case lastForgottenServer r of
        None \<Rightarrow> r
      | Some forgotten \<Rightarrow>
          if server_id forgotten \<noteq> serverId then r
          else (enqueue (ServerForgetUndone forgotten)
                  (storeServers
                     (r\<lparr>serverById :=
                          AList.update (server_id forgotten) forgotten (serverById r)\<rparr>)))
               \<lparr>lastForgottenServer := None\<rparr>)"

text \<open>
  \<open>loadServers\<close>: the body of the loop over the parsed record, the loop, then the
  function. A server the factory fails on is skipped; a server whose cipher is not
  supported is tagged and kept. The call \<open>configById.hasOwnProperty(serverId)\<close> stands
  outside the inner \<open>try\<close>, so its \<open>TypeError\<close> leaves \<open>loadServers\<close>; the loop
  returns the error it throws (or \<open>None\<close>) and the map as far as it was filled.
  \<^verbatim>\<open>
  for (const serverId in configById) {
    if (configById.hasOwnProperty(serverId)) {
      const config = configById[serverId];
      try {
        const server = this.createServer(serverId, config, this.eventQueue);
        if (!isServerCipherSupported(server.config)) {
          server.errorMessageId = 'unsupported-cipher';
        }
        this.serverById.set(serverId, server);
      } catch (e) {
        // Don't propagate so other stored servers can be created.
        console.error(e);
      }
    }
  }
  \<close>
\<close>

definition loadEntry ::
  "PersistentServerFactory \<Rightarrow> string \<times> ServerConfig \<Rightarrow> (string \<times> Server) list
     \<Rightarrow> (string \<times> Server) list"
where
  "loadEntry createServer e m =
     (let serverId = fst e; config' = snd e
      in case createServer serverId config' of
           Inl err \<Rightarrow> m
         | Inr server \<Rightarrow>
             (let server' = (if \<not> isServerCipherSupported (config server)
                             then server\<lparr>errorMessageId := Some ''unsupported-cipher''\<rparr>
                             else server)
              in AList.update serverId server' m))"

fun loadLoop ::
  "PersistentServerFactory \<Rightarrow> ConfigById \<Rightarrow> (string \<times> ServerConfig) list
     \<Rightarrow> (string \<times> Server) list \<Rightarrow> error option \<times> (string \<times> Server) list"
where
  "loadLoop createServer configById [] m = (None, m)"
| "loadLoop createServer configById (e # rest) m =
     (if hidesHasOwnProperty configById then (Some TypeError, m)
      else loadLoop createServer configById rest (loadEntry createServer e m))"

definition loadServers ::
  "PersistentServerFactory \<Rightarrow> Repository \<Rightarrow> error option \<times> Repository"
where
  "loadServers createServer r =
     (let r0 = r\<lparr>serverById := []\<rparr>
      in if \<not> truthy (servers_v1 (storage r0)) then (None, r0)
         else (case servers_v1 (storage r0) of
                 Some (Json configById) \<Rightarrow>
                   (case loadLoop createServer configById configById [] of
                      (thrown, m) \<Rightarrow> (thrown, r0\<lparr>serverById := m\<rparr>))
               | _ \<Rightarrow> (Some (Error ''could not parse saved servers''), r0)))"

text \<open>
  The constructor: \<open>this.migrateStorageV1(); this.loadServers();\<close> on an object whose
  \<open>lastForgottenServer\<close> is \<open>null\<close>. It returns the error that leaves it (or \<open>None\<close>)
  and the fields at that point; when \<open>migrateStorageV1\<close> throws, the map has not been
  made yet and is shown empty.
\<close>

definition newRepository ::
  "PersistentServerFactory \<Rightarrow> event list \<Rightarrow> Storage \<Rightarrow> error option \<times> Repository"
where
  "newRepository createServer eventQueue' storage' =
     (case migrateStorageV1 storage' of
        (Some e, st) \<Rightarrow>
          (Some e, \<lparr>serverById = [], lastForgottenServer = None, eventQueue = eventQueue',
                    storage = st\<rparr>)
      | (None, st) \<Rightarrow>
          loadServers createServer
            \<lparr>serverById = [], lastForgottenServer = None, eventQueue = eventQueue',
             storage = st\<rparr>)"

section \<open>The matching rule as specified\<close>

text \<open>The tuple of a proxy that the matching rule compares.\<close>

definition proxy_key ::
  "ShadowsocksConfig \<Rightarrow> string option \<times> int option \<times> string option \<times> string option" where
  "proxy_key p = (host p, port p, method' p, password p)"

text \<open>The matching rule in the words of the specification: both have a source with equal
  URLs, or both have a proxy with equal tuples.\<close>

definition configsMatch_spec :: "ServerConfig \<Rightarrow> ServerConfig \<Rightarrow> bool" where
  "configsMatch_spec a b =
     ((case (source a, source b) of (Some sa, Some sb) \<Rightarrow> url sa = url sb | _ \<Rightarrow> False) \<or>
      (case (proxy a, proxy b) of (Some pa, Some pb) \<Rightarrow> proxy_key pa = proxy_key pb
       | _ \<Rightarrow> False))"

section \<open>The server adapter (\<open>OutlineServer\<close>) and its tunnel\<close>

text \<open>
  \<open>OutlineServer.config\<close> is the config object of its tunnel, so an operation of the
  tunnel handle runs on the config the server shows: it is a function from that config
  to what the operation returns or throws and the config afterwards. What the handle
  keeps to itself (whether it runs, what the other process answers) is fixed in the
  function. An \<open>await\<close> is taken in one step: nothing else runs in between.
\<close>

datatype 'a completion = Returns 'a | Throws error

text \<open>\<open>fetchProxyConfig\<close> resolves to an array of proxies (\<open>Some\<close>) or to
  \<open>undefined\<close> (\<open>None\<close>), as the two tunnels of the sources do.\<close>

type_synonym fetchOp =
  "ServerConfig \<Rightarrow> ShadowsocksConfig list option completion \<times> ServerConfig"

type_synonym startOp = "ServerConfig \<Rightarrow> unit completion \<times> ServerConfig"

text \<open>\<open>proxies[0]\<close> of an array: \<open>undefined\<close> when it is empty.\<close>

definition first :: "'a list \<Rightarrow> 'a option" where
  "first xs = (case xs of [] \<Rightarrow> None | x # _ \<Rightarrow> Some x)"

text \<open>
  The end of the \<open>catch\<close> block of \<open>connect\<close>. The property \<open>errorCode\<close> of an error
  object and the function \<open>errors.fromErrorCode\<close> belong to \<open>www/model/errors\<close> and are
  parameters; \<open>fromErrorCode code\<close> is the error that leaves
  \<open>throw errors.fromErrorCode(code)\<close>. The code \<open>0\<close> is falsy.
  \<^verbatim>\<open>
  if (e.errorCode) {
    throw errors.fromErrorCode(e.errorCode);
  }
  throw e;
  \<close>
\<close>

definition rethrow :: "(error \<Rightarrow> int option) \<Rightarrow> (int \<Rightarrow> error) \<Rightarrow> error \<Rightarrow> error" where
  "rethrow errorCode fromErrorCode e =
     (case errorCode e of
        None \<Rightarrow> e
      | Some code \<Rightarrow> if code = 0 then e else fromErrorCode code)"

text \<open>
  The \<open>try\<close> block of \<open>connect\<close>: the error it throws, if any, and the config at that
  point. Indexing \<open>undefined\<close> throws a \<open>TypeError\<close>.
  \<^verbatim>\<open>
  if (this.config.source) {
    const proxies = await this.tunnel.fetchProxyConfig();
    this.config.proxy = proxies[0];
  }
  await this.tunnel.start();
  \<close>
\<close>

definition tryConnect :: "fetchOp \<Rightarrow> startOp \<Rightarrow> ServerConfig \<Rightarrow> error option \<times> ServerConfig" where
  "tryConnect fetchProxyConfig start c =
     (let fetched =
            (if source c \<noteq> None
             then (case fetchProxyConfig c of
                     (Throws e, c1) \<Rightarrow> (Some e, c1)
                   | (Returns None, c1) \<Rightarrow> (Some TypeError, c1)
                   | (Returns (Some proxies), c1) \<Rightarrow> (None, c1\<lparr>proxy := first proxies\<rparr>))
             else (None, c))
      in case fetched of
           (Some e, c1) \<Rightarrow> (Some e, c1)
         | (None, c1) \<Rightarrow>
             (case start c1 of
                (Throws e, c2) \<Rightarrow> (Some e, c2)
              | (Returns u, c2) \<Rightarrow> (None, c2)))"

text \<open>
  \<open>connect\<close>: the error it throws (or \<open>None\<close>) and the server afterwards.
  \<^verbatim>\<open>
  } catch (e) {
    if (this.config.source) {
      // Remove the proxy configuration in case fetching succeeded but connecting failed.
      delete this.config.proxy;
    }
    ...
  \<close>
\<close>

definition connect ::
  "(error \<Rightarrow> int option) \<Rightarrow> (int \<Rightarrow> error) \<Rightarrow> fetchOp \<Rightarrow> startOp \<Rightarrow> Server
     \<Rightarrow> error option \<times> Server"
where
  "connect errorCode fromErrorCode fetchProxyConfig start s =
     (case tryConnect fetchProxyConfig start (config s) of
        (None, c) \<Rightarrow> (None, s\<lparr>config := c\<rparr>)
      | (Some e, c) \<Rightarrow>
          (Some (rethrow errorCode fromErrorCode e),
           s\<lparr>config := (if source c \<noteq> None then c\<lparr>proxy := None\<rparr> else c)\<rparr>))"

subsection \<open>The tunnels of the sources\<close>

text \<open>
  \<open>ElectronOutlineTunnel\<close>: the answer of the main process to a \<open>promiseIpc.send\<close> is a
  parameter, a value or a rejection, and a rejection is a number or an error
  (\<open>handleMainProcessError(e: number|Error)\<close>). \<open>fetchProxyConfig\<close> sets
  \<open>config.proxy\<close> itself and resolves to \<open>undefined\<close>.
\<close>

datatype rejection = Code int | Err error

definition handleMainProcessError :: "rejection \<Rightarrow> error" where
  "handleMainProcessError e = (case e of Code n \<Rightarrow> OutlinePluginError n | Err err \<Rightarrow> err)"

definition electron_fetchProxyConfig :: "rejection + ShadowsocksConfig list \<Rightarrow> fetchOp" where
  "electron_fetchProxyConfig reply c =
     (if source c = None then (Throws InvalidServerCredentials, c)
      else (case reply of
              Inr proxies \<Rightarrow> (Returns None, c\<lparr>proxy := first proxies\<rparr>)
            | Inl e \<Rightarrow> (Throws (handleMainProcessError e), c)))"

definition electron_start :: "bool \<Rightarrow> rejection + unit \<Rightarrow> startOp" where
  "electron_start running reply c =
     (if running then (Returns (), c)
      else (case reply of
              Inr u \<Rightarrow> (Returns (), c)
            | Inl e \<Rightarrow> (Throws (handleMainProcessError e), c)))"

text \<open>\<open>FakeOutlineTunnel.fetchProxyConfig\<close> returns one fixed proxy.\<close>

definition fake_fetchProxyConfig :: fetchOp where
  "fake_fetchProxyConfig c =
     (if source c = None then (Throws IllegalServerConfiguration, c)
      else (Returns (Some [\<lparr>host = Some ''127.0.0.1'', port = Some 1080,
                             password = Some ''test'',
                             method' = Some ''chacha20-ietf-poly1305'',
                             proxy_name = Some ''Dynamic Server''\<rparr>]), c))"

section \<open>Example data\<close>

text \<open>Concrete configs, servers and a factory for the examples below. The factory
  follows the comment on \<open>Tunnel\<close>'s constructor in the typings: it throws if the config
  has neither a proxy nor a source, and otherwise binds the id to the config.\<close>

definition proxyH :: ShadowsocksConfig where
  "proxyH = \<lparr>host = Some ''h'', port = Some 1,
             password = Some ''p'', method' = Some ''aes-128-gcm'',
             proxy_name = Some ''N''\<rparr>"

definition staticH :: ServerConfig where
  "staticH = \<lparr>name = Some ''N'', proxy = Some proxyH, source = None\<rparr>"

definition dynamicA :: ServerConfig where
  "dynamicA = \<lparr>name = None, proxy = None, source = Some \<lparr>url = ''https://a''\<rparr>\<rparr>"

definition connectedA :: ServerConfig where
  "connectedA = \<lparr>name = None, proxy = Some proxyH, source = Some \<lparr>url = ''https://a''\<rparr>\<rparr>"

definition connectedB :: ServerConfig where
  "connectedB = \<lparr>name = None, proxy = Some proxyH, source = Some \<lparr>url = ''https://b''\<rparr>\<rparr>"

definition rc4 :: ServerConfig where
  "rc4 = \<lparr>name = None, proxy = Some (proxyH\<lparr>method' := Some ''rc4-md5''\<rparr>), source = None\<rparr>"

definition emptyMethod :: ServerConfig where
  "emptyMethod = \<lparr>name = None, proxy = Some (proxyH\<lparr>method' := Some []\<rparr>), source = None\<rparr>"

definition exampleFactory :: PersistentServerFactory where
  "exampleFactory serverId c =
     (if proxy c = None \<and> source c = None then Inl IllegalServerConfiguration
      else Inr \<lparr>server_id = serverId, config = c, errorMessageId = None\<rparr>)"

definition emptyStorage :: Storage where
  "emptyStorage = \<lparr>servers = None, servers_v1 = None\<rparr>"

definition emptyRepo :: Repository where
  "emptyRepo = \<lparr>serverById = [], lastForgottenServer = None, eventQueue = [],
                storage = emptyStorage\<rparr>"

definition serverS1 :: Server where
  "serverS1 = \<lparr>server_id = ''s1'', config = staticH, errorMessageId = None\<rparr>"

definition serverS2 :: Server where
  "serverS2 = \<lparr>server_id = ''s2'', config = dynamicA, errorMessageId = None\<rparr>"

definition repo2 :: Repository where
  "repo2 = \<lparr>serverById = [(''s1'', serverS1), (''s2'', serverS2)],
            lastForgottenServer = None, eventQueue = [],
            storage = \<lparr>servers = None,
                       servers_v1 = Some (Json [(''s1'', staticH), (''s2'', dynamicA)])\<rparr>\<rparr>"

text \<open>A repository that tracks a server with an unsupported cipher, as \<open>loadServers\<close>
  leaves one that was stored.\<close>

definition serverR :: Server where
  "serverR = \<lparr>server_id = ''s3'', config = rc4, errorMessageId = Some ''unsupported-cipher''\<rparr>"

definition repoR :: Repository where
  "repoR = \<lparr>serverById = [(''s3'', serverR)], lastForgottenServer = None, eventQueue = [],
            storage = \<lparr>servers = None, servers_v1 = Some (Json [(''s3'', rc4)])\<rparr>\<rparr>"

text \<open>An \<open>errorCode\<close> property and a \<open>fromErrorCode\<close> for the examples: plugin and
  native errors carry their code, and a code is translated to the plugin error of that
  code.\<close>

definition exampleErrorCode :: "error \<Rightarrow> int option" where
  "exampleErrorCode e =
     (case e of OutlinePluginError n \<Rightarrow> Some n | NativeError n \<Rightarrow> n | _ \<Rightarrow> None)"

definition exampleFromErrorCode :: "int \<Rightarrow> error" where
  "exampleFromErrorCode n = OutlinePluginError n"

text \<open>The legacy store of the specification's migration example.\<close>

definition legacyStorage :: Storage where
  "legacyStorage = \<lparr>servers = Some (Json [(''s1'', proxyH)]), servers_v1 = None\<rparr>"

text \<open>A current record with an entry the example factory rejects (neither proxy nor
  source) and a valid one.\<close>

definition malformed :: ServerConfig where
  "malformed = \<lparr>name = Some ''broken'', proxy = None, source = None\<rparr>"

definition mixedStorage :: Storage where
  "mixedStorage = \<lparr>servers = None,
                   servers_v1 = Some (Json [(''bad'', malformed), (''s1'', staticH)])\<rparr>"

text \<open>Records whose ids are \<open>'hasOwnProperty'\<close> and \<open>'__proto__'\<close>: a legacy store
  for each, and a current record with the malformed entry under \<open>'hasOwnProperty'\<close>
  and a valid one.\<close>

definition shadowedLegacy :: Storage where
  "shadowedLegacy = \<lparr>servers = Some (Json [(''hasOwnProperty'', proxyH)]), servers_v1 = None\<rparr>"

definition protoLegacy :: Storage where
  "protoLegacy = \<lparr>servers = Some (Json [(''__proto__'', proxyH)]), servers_v1 = None\<rparr>"

definition shadowedStorage :: Storage where
  "shadowedStorage =
     \<lparr>servers = None,
      servers_v1 = Some (Json [(''hasOwnProperty'', malformed), (''s1'', staticH)])\<rparr>"

section \<open>Properties of the matching rule\<close>


lemma configsMatch_sym: "configsMatch a b = configsMatch b a"
  by (auto simp: configsMatch_def split: option.splits)

lemma configsMatch_iff:
  "configsMatch a b \<longleftrightarrow>
     (\<exists>sa sb. source a = Some sa \<and> source b = Some sb \<and> url sa = url sb) \<or>
     ((source a = None \<or> source b = None) \<and>
      (\<exists>pa pb. proxy a = Some pa \<and> proxy b = Some pb \<and> proxy_key pa = proxy_key pb))"
  by (auto simp: configsMatch_def proxy_key_def split: option.splits)

text \<open>
  Claim C1, as stated, fails: two configs that both carry a source, with different URLs,
  and both carry the same proxy (a dynamic server keeps the proxy it fetched while it is
  connected) do not match in the code, since the source branch decides alone; the rule
  of the specification says they match. And a config with a source that also holds a
  fetched proxy matches the config that has only that proxy.
\<close>

theorem configsMatch_spec_counterexample:
  "configsMatch connectedA connectedB \<noteq> configsMatch_spec connectedA connectedB \<and>
   source connectedA \<noteq> None \<and> source staticH = None \<and> proxy staticH \<noteq> None \<and>
   configsMatch connectedA staticH"
  by (simp add: configsMatch_def configsMatch_spec_def proxy_key_def connectedA_def
      connectedB_def staticH_def proxyH_def)

text \<open>
  Claim C1, amended: \<open>configsMatch\<close> is symmetric; it is true if and only if both configs
  have a source and the URLs are equal, or at least one of them has no source and both
  have a proxy with equal (host, port, method, password); a config with a source and no
  proxy and a config with a proxy and no source never match.
\<close>

theorem configsMatch_characterisation:
  "configsMatch a b = configsMatch b a \<and>
   (configsMatch a b \<longleftrightarrow>
      (\<exists>sa sb. source a = Some sa \<and> source b = Some sb \<and> url sa = url sb) \<or>
      ((source a = None \<or> source b = None) \<and>
       (\<exists>pa pb. proxy a = Some pa \<and> proxy b = Some pb \<and> proxy_key pa = proxy_key pb))) \<and>
   (source a \<noteq> None \<and> proxy a = None \<and> proxy b \<noteq> None \<and> source b = None
      \<longrightarrow> \<not> configsMatch a b \<and> \<not> configsMatch b a)"
proof (intro conjI)
  show "configsMatch a b = configsMatch b a"
    by (rule configsMatch_sym)
  show "configsMatch a b \<longleftrightarrow>
      (\<exists>sa sb. source a = Some sa \<and> source b = Some sb \<and> url sa = url sb) \<or>
      ((source a = None \<or> source b = None) \<and>
       (\<exists>pa pb. proxy a = Some pa \<and> proxy b = Some pb \<and> proxy_key pa = proxy_key pb))"
    by (rule configsMatch_iff)
  show "source a \<noteq> None \<and> proxy a = None \<and> proxy b \<noteq> None \<and> source b = None
      \<longrightarrow> \<not> configsMatch a b \<and> \<not> configsMatch b a"
    by (auto simp: configsMatch_def split: option.splits)
qed

theorem configsMatch_characterisation_witness:
  "source dynamicA \<noteq> None \<and> proxy dynamicA = None \<and> proxy staticH \<noteq> None \<and>
   source staticH = None \<and> \<not> configsMatch dynamicA staticH \<and> \<not> configsMatch staticH dynamicA"
  using configsMatch_characterisation [of dynamicA staticH]
  by (simp add: dynamicA_def staticH_def)

section \<open>Adding a server\<close>

lemma firstMatch_Some:
  "firstMatch ss c = Some s \<Longrightarrow> s \<in> set ss \<and> configsMatch (config s) c"
  by (induction ss) (auto split: if_splits)

lemma firstMatch_None_iff:
  "firstMatch ss c = None \<longleftrightarrow> (\<forall>s \<in> set ss. \<not> configsMatch (config s) c)"
  by (induction ss) auto

lemma serverFromConfig_tracked:
  assumes "server \<in> set (getAll r)" and "configsMatch (config server) c"
  obtains existing where "serverFromConfig r c = Some existing"
    and "existing \<in> set (getAll r)" and "configsMatch (config existing) c"
proof -
  from assms have "firstMatch (getAll r) c \<noteq> None"
    by (auto simp: firstMatch_None_iff)
  then obtain existing where e: "firstMatch (getAll r) c = Some existing"
    by auto
  with firstMatch_Some [OF e] that show thesis
    by (simp add: serverFromConfig_def)
qed

lemma add_found:
  "serverFromConfig r c = Some existing \<Longrightarrow>
   add createServer uuid r c = (Some (ServerAlreadyAdded existing), r)"
  by (simp add: add_def)

lemma add_unsupported:
  "serverFromConfig r c = None \<Longrightarrow> \<not> isServerCipherSupported c \<Longrightarrow>
   add createServer uuid r c = (Some (ShadowsocksUnsupportedCipher (methodOrUnknown c)), r)"
  by (simp add: add_def)

text \<open>
  Claim C2: when the config matches the config of a tracked server, \<open>add\<close> throws
  \<open>ServerAlreadyAdded\<close> carrying a tracked server whose config matches, and the
  repository (map, last-forgotten slot, storage, event queue) is what it was.
\<close>

theorem add_existing_raises_ServerAlreadyAdded:
  assumes "server \<in> set (getAll r)" and "configsMatch (config server) serverConfig"
  shows "\<exists>existing. existing \<in> set (getAll r) \<and> configsMatch (config existing) serverConfig \<and>
           add createServer uuid r serverConfig = (Some (ServerAlreadyAdded existing), r)"
proof -
  from assms obtain existing where "serverFromConfig r serverConfig = Some existing"
    and "existing \<in> set (getAll r)" and "configsMatch (config existing) serverConfig"
    by (rule serverFromConfig_tracked)
  then show ?thesis
    by (auto simp: add_found)
qed

theorem add_existing_raises_ServerAlreadyAdded_witness:
  "serverS1 \<in> set (getAll repo2) \<and> configsMatch (config serverS1) staticH \<and>
   (\<exists>existing. existing \<in> set (getAll repo2) \<and> configsMatch (config existing) staticH \<and>
      add exampleFactory ''u'' repo2 staticH = (Some (ServerAlreadyAdded existing), repo2))"
proof -
  have h1: "serverS1 \<in> set (getAll repo2)"
    by (simp add: getAll_def repo2_def)
  have h2: "configsMatch (config serverS1) staticH"
    by (simp add: configsMatch_def serverS1_def staticH_def)
  from add_existing_raises_ServerAlreadyAdded [OF h1 h2] h1 h2 show ?thesis
    by blast
qed

text \<open>
  Claim C3, as stated, fails in its last part: for a proxy whose method is the empty
  string (outside the allow-list), \<open>add\<close> throws \<open>ShadowsocksUnsupportedCipher\<close>
  carrying \<open>'unknown'\<close>, not that method.
\<close>

theorem add_unsupported_cipher_counterexample:
  "map_option method' (proxy emptyMethod) = Some (Some []) \<and>
   [] \<notin> set SUPPORTED_CIPHERS \<and> getAll emptyRepo = [] \<and>
   add exampleFactory ''u'' emptyRepo emptyMethod
     = (Some (ShadowsocksUnsupportedCipher ''unknown''), emptyRepo) \<and>
   fst (add exampleFactory ''u'' emptyRepo emptyMethod) \<noteq> Some (ShadowsocksUnsupportedCipher [])"
  by (simp add: add_def serverFromConfig_def getAll_def isServerCipherSupported_def
      OutlineServer_isServerCipherSupported_def SUPPORTED_CIPHERS_def methodOrUnknown_def
      emptyMethod_def emptyRepo_def proxyH_def)

text \<open>
  Claim C3, amended: a config without a proxy is supported; a config with a proxy is
  supported if and only if its method is one of chacha20-ietf-poly1305, aes-128-gcm,
  aes-192-gcm, aes-256-gcm; and for a config with a proxy whose method is outside this
  set, when no tracked server's config matches, \<open>add\<close> throws
  \<open>ShadowsocksUnsupportedCipher\<close> carrying that method, or \<open>'unknown'\<close> when the
  method is absent or the empty string, and leaves the repository as it was.
\<close>

theorem cipher_support_policy:
  "(proxy c = None \<longrightarrow> isServerCipherSupported c) \<and>
   (proxy c = Some p \<longrightarrow>
      (isServerCipherSupported c \<longleftrightarrow>
         (\<exists>m. method' p = Some m \<and>
              m \<in> {''chacha20-ietf-poly1305'', ''aes-128-gcm'', ''aes-192-gcm'',
                    ''aes-256-gcm''}))) \<and>
   (proxy c = Some p \<and>
    (\<forall>m \<in> {''chacha20-ietf-poly1305'', ''aes-128-gcm'', ''aes-192-gcm'', ''aes-256-gcm''}.
        method' p \<noteq> Some m) \<and>
    (\<forall>s \<in> set (getAll r). \<not> configsMatch (config s) c) \<longrightarrow>
      add createServer uuid r c =
        (Some (ShadowsocksUnsupportedCipher
                 (case method' p of
                    None \<Rightarrow> ''unknown''
                  | Some m \<Rightarrow> if m = [] then ''unknown'' else m)), r))"
proof (intro conjI impI)
  assume "proxy c = None"
  then show "isServerCipherSupported c"
    by (simp add: isServerCipherSupported_def)
next
  assume "proxy c = Some p"
  then show "isServerCipherSupported c \<longleftrightarrow>
         (\<exists>m. method' p = Some m \<and>
              m \<in> {''chacha20-ietf-poly1305'', ''aes-128-gcm'', ''aes-192-gcm'',
                    ''aes-256-gcm''})"
    by (cases "method' p")
       (simp_all add: isServerCipherSupported_def OutlineServer_isServerCipherSupported_def
          SUPPORTED_CIPHERS_def)
next
  assume a: "proxy c = Some p \<and>
    (\<forall>m \<in> {''chacha20-ietf-poly1305'', ''aes-128-gcm'', ''aes-192-gcm'', ''aes-256-gcm''}.
        method' p \<noteq> Some m) \<and>
    (\<forall>s \<in> set (getAll r). \<not> configsMatch (config s) c)"
  then have none: "serverFromConfig r c = None"
    by (simp add: serverFromConfig_def firstMatch_None_iff)
  from a have unsupported: "\<not> isServerCipherSupported c"
    by (cases "method' p")
       (simp_all add: isServerCipherSupported_def OutlineServer_isServerCipherSupported_def
          SUPPORTED_CIPHERS_def)
  from a have "methodOrUnknown c =
      (case method' p of None \<Rightarrow> ''unknown'' | Some m \<Rightarrow> if m = [] then ''unknown'' else m)"
    by (simp add: methodOrUnknown_def)
  with add_unsupported [OF none unsupported] show "add createServer uuid r c =
        (Some (ShadowsocksUnsupportedCipher
                 (case method' p of
                    None \<Rightarrow> ''unknown''
                  | Some m \<Rightarrow> if m = [] then ''unknown'' else m)), r)"
    by simp
qed

theorem cipher_support_policy_witness:
  "proxy dynamicA = None \<and> isServerCipherSupported dynamicA \<and>
   proxy staticH = Some proxyH \<and> isServerCipherSupported staticH \<and>
   proxy rc4 = Some (proxyH\<lparr>method' := Some ''rc4-md5''\<rparr>) \<and>
   \<not> isServerCipherSupported rc4 \<and>
   add exampleFactory ''u'' repo2 rc4
     = (Some (ShadowsocksUnsupportedCipher ''rc4-md5''), repo2)"
  using cipher_support_policy [of dynamicA proxyH repo2 exampleFactory "''u''"]
        cipher_support_policy [of staticH proxyH repo2 exampleFactory "''u''"]
        cipher_support_policy
          [of rc4 "proxyH\<lparr>method' := Some ''rc4-md5''\<rparr>" repo2 exampleFactory "''u''"]
  by (simp add: getAll_def configsMatch_def dynamicA_def staticH_def rc4_def proxyH_def
      repo2_def serverS1_def serverS2_def)

text \<open>
  Claim C9: when the config matches a tracked server's config and its proxy has an
  unsupported cipher, \<open>add\<close> throws \<open>ServerAlreadyAdded\<close>; and whenever \<open>add\<close>
  throws \<open>ShadowsocksUnsupportedCipher\<close>, no tracked server's config matches.
\<close>

theorem add_checks_duplicate_before_cipher:
  "(server \<in> set (getAll r) \<and> configsMatch (config server) c \<and>
    \<not> isServerCipherSupported c \<longrightarrow>
      (\<exists>existing. existing \<in> set (getAll r) \<and> configsMatch (config existing) c \<and>
         add createServer uuid r c = (Some (ServerAlreadyAdded existing), r))) \<and>
   (fst (add createServer uuid r c) = Some (ShadowsocksUnsupportedCipher m) \<longrightarrow>
      (\<forall>s \<in> set (getAll r). \<not> configsMatch (config s) c))"
proof (intro conjI impI)
  assume a: "server \<in> set (getAll r) \<and> configsMatch (config server) c \<and>
    \<not> isServerCipherSupported c"
  then obtain existing where "serverFromConfig r c = Some existing"
    and "existing \<in> set (getAll r)" and "configsMatch (config existing) c"
    by (blast elim: serverFromConfig_tracked)
  then show "\<exists>existing. existing \<in> set (getAll r) \<and> configsMatch (config existing) c \<and>
         add createServer uuid r c = (Some (ServerAlreadyAdded existing), r)"
    by (auto simp: add_found)
next
  assume a: "fst (add createServer uuid r c) = Some (ShadowsocksUnsupportedCipher m)"
  have "serverFromConfig r c = None"
  proof (cases "serverFromConfig r c")
    case None
    then show ?thesis .
  next
    case (Some existing)
    with a show ?thesis
      by (simp add: add_found)
  qed
  then show "\<forall>s \<in> set (getAll r). \<not> configsMatch (config s) c"
    by (simp add: serverFromConfig_def firstMatch_None_iff)
qed

theorem add_checks_duplicate_before_cipher_witness:
  "serverR \<in> set (getAll repoR) \<and> configsMatch (config serverR) rc4 \<and>
   \<not> isServerCipherSupported rc4 \<and>
   (\<exists>existing. existing \<in> set (getAll repoR) \<and> configsMatch (config existing) rc4 \<and>
      add exampleFactory ''u'' repoR rc4 = (Some (ServerAlreadyAdded existing), repoR)) \<and>
   fst (add exampleFactory ''u'' repo2 rc4) = Some (ShadowsocksUnsupportedCipher ''rc4-md5'') \<and>
   \<not> configsMatch (config serverS1) rc4 \<and> \<not> configsMatch (config serverS2) rc4"
proof -
  have h5: "serverS1 \<in> set (getAll repo2)" "serverS2 \<in> set (getAll repo2)"
    by (simp_all add: getAll_def repo2_def)
  have h1: "serverR \<in> set (getAll repoR)"
    by (simp add: getAll_def repoR_def)
  have h2: "configsMatch (config serverR) rc4"
    by (simp add: configsMatch_def serverR_def rc4_def)
  have h3: "\<not> isServerCipherSupported rc4"
    by (simp add: isServerCipherSupported_def OutlineServer_isServerCipherSupported_def
        SUPPORTED_CIPHERS_def rc4_def proxyH_def)
  have h4: "fst (add exampleFactory ''u'' repo2 rc4)
      = Some (ShadowsocksUnsupportedCipher ''rc4-md5'')"
    by (simp add: add_def serverFromConfig_def getAll_def configsMatch_def
        isServerCipherSupported_def OutlineServer_isServerCipherSupported_def
        SUPPORTED_CIPHERS_def methodOrUnknown_def repo2_def serverS1_def serverS2_def
        staticH_def dynamicA_def rc4_def proxyH_def)
  from add_checks_duplicate_before_cipher [of serverR repoR rc4 exampleFactory "''u''"]
       add_checks_duplicate_before_cipher [of _ repo2 rc4 exampleFactory "''u''" "''rc4-md5''"]
       h1 h2 h3 h4 h5
  show ?thesis
    by blast
qed

section \<open>Objects as dictionaries\<close>




lemma objInsert_last:
  "\<forall>e \<in> set obj. \<not> comesBefore k (fst e) \<Longrightarrow> objInsert k v obj = obj @ [(k, v)]"
  by (induction obj) auto

lemma objSet_fresh:
  "k \<noteq> ''__proto__'' \<Longrightarrow> k \<notin> set (map fst obj) \<Longrightarrow>
   \<forall>e \<in> set obj. \<not> comesBefore k (fst e) \<Longrightarrow> objSet k v obj = obj @ [(k, v)]"
  by (simp add: objSet_def objInsert_last)















section \<open>Forgetting a server and undoing it\<close>

lemma forget_tracked:
  "getById r serverId = Some server \<Longrightarrow>
   forget r serverId =
     \<lparr>serverById = AList.delete serverId (serverById r),
      lastForgottenServer = Some server,
      eventQueue = eventQueue r @ [ServerForgotten server],
      storage = (storage r)\<lparr>servers_v1 :=
        Some (Json (configByIdOf (map snd (AList.delete serverId (serverById r)))))\<rparr>\<rparr>"
  by (simp add: forget_def storeServers_def enqueue_def getAll_def)


lemma undoForget_empty: "lastForgottenServer r = None \<Longrightarrow> undoForget r serverId = r"
  by (simp add: undoForget_def)

lemma undoForget_other:
  "lastForgottenServer r = Some forgotten \<Longrightarrow> server_id forgotten \<noteq> serverId \<Longrightarrow>
   undoForget r serverId = r"
  by (simp add: undoForget_def)




text \<open>
  Claim C8: when the buffer is empty, or holds a server whose id is not the one asked
  for, \<open>undoForget\<close> returns the repository as it is: map, storage, buffer and event
  queue are unchanged. \<open>undoForget\<close> has no error result: it never throws.
\<close>

theorem undoForget_stale_noop:
  assumes "lastForgottenServer r = None \<or>
           (\<exists>forgotten. lastForgottenServer r = Some forgotten \<and> server_id forgotten \<noteq> idX)"
  shows "undoForget r idX = r"
  using assms by (auto simp: undoForget_empty undoForget_other)

theorem undoForget_stale_noop_witness:
  "lastForgottenServer (forget repo2 ''s1'') = Some serverS1 \<and> server_id serverS1 \<noteq> ''s2'' \<and>
   undoForget (forget repo2 ''s1'') ''s2'' = forget repo2 ''s1'' \<and>
   lastForgottenServer repo2 = None \<and> undoForget repo2 ''s1'' = repo2"
proof -
  have "getById repo2 ''s1'' = Some serverS1"
    by (simp add: getById_def repo2_def)
  then have h1: "lastForgottenServer (forget repo2 ''s1'') = Some serverS1"
    by (simp add: forget_tracked)
  have h2: "server_id serverS1 \<noteq> ''s2''"
    by (simp add: serverS1_def)
  have h3: "lastForgottenServer repo2 = None"
    by (simp add: repo2_def)
  from undoForget_stale_noop [of "forget repo2 ''s1''" "''s2''"]
       undoForget_stale_noop [of repo2 "''s1''"] h1 h2 h3
  show ?thesis
    by simp
qed

section \<open>Renaming a server\<close>

lemma rename_tracked:
  "getById r serverId = Some server \<Longrightarrow>
   getById (rename r serverId newName) serverId = Some (set_name newName server)"
  by (simp add: rename_def getById_def Let_def storeServers_def enqueue_def update_conv')

lemma set_name_proxy:
  "proxy (config server) = Some p \<Longrightarrow>
   config (set_name newName server) =
     \<lparr>name = Some newName, proxy = Some (p\<lparr>proxy_name := Some newName\<rparr>),
      source = source (config server)\<rparr>"
  by (simp add: set_name_def)

lemma set_name_configsMatch:
  "configsMatch (config (set_name newName server)) c = configsMatch (config server) c"
  by (cases "proxy (config server)")
     (auto simp: set_name_def configsMatch_def split: option.splits)

text \<open>
  Claim C10: for a tracked server whose config has a proxy, after \<open>rename(id, newName)\<close>
  the server tracked under that id has \<open>config.name\<close> and \<open>config.proxy.name\<close> equal to
  \<open>newName\<close>, the same id, the same proxy host, port, method and password and the same
  source; and it matches exactly the configs it matched before, on either side of
  \<open>configsMatch\<close>.
\<close>

theorem rename_sets_names_only:
  assumes "getById r serverId = Some server" and "proxy (config server) = Some p"
  shows "\<exists>server' p'.
           getById (rename r serverId newName) serverId = Some server' \<and>
           server_id server' = server_id server \<and>
           name (config server') = Some newName \<and>
           proxy (config server') = Some p' \<and>
           proxy_name p' = Some newName \<and>
           host p' = host p \<and> port p' = port p \<and> method' p' = method' p \<and>
           password p' = password p \<and>
           source (config server') = source (config server) \<and>
           (\<forall>c. configsMatch (config server') c = configsMatch (config server) c \<and>
                configsMatch c (config server') = configsMatch c (config server))"
proof -
  let ?server' = "set_name newName server"
  let ?p' = "p\<lparr>proxy_name := Some newName\<rparr>"
  have "getById (rename r serverId newName) serverId = Some ?server'"
    by (rule rename_tracked [OF assms(1)])
  moreover have "server_id ?server' = server_id server"
    by (simp add: set_name_def Let_def split: option.splits)
  moreover have "name (config ?server') = Some newName"
    and "proxy (config ?server') = Some ?p'"
    and "source (config ?server') = source (config server)"
    by (simp_all add: set_name_proxy [OF assms(2)])
  moreover have "proxy_name ?p' = Some newName" and "host ?p' = host p"
    and "port ?p' = port p" and "method' ?p' = method' p" and "password ?p' = password p"
    by simp_all
  moreover have "\<forall>c. configsMatch (config ?server') c = configsMatch (config server) c \<and>
      configsMatch c (config ?server') = configsMatch c (config server)"
    using set_name_configsMatch configsMatch_sym by blast
  ultimately show ?thesis
    by blast
qed

theorem rename_sets_names_only_witness:
  "getById repo2 ''s1'' = Some serverS1 \<and> proxy (config serverS1) = Some proxyH \<and>
   (\<exists>server' p'.
      getById (rename repo2 ''s1'' ''Home'') ''s1'' = Some server' \<and>
      server_id server' = server_id serverS1 \<and>
      name (config server') = Some ''Home'' \<and>
      proxy (config server') = Some p' \<and>
      proxy_name p' = Some ''Home'' \<and>
      host p' = host proxyH \<and> port p' = port proxyH \<and> method' p' = method' proxyH \<and>
      password p' = password proxyH \<and>
      source (config server') = source (config serverS1) \<and>
      (\<forall>c. configsMatch (config server') c = configsMatch (config serverS1) c \<and>
           configsMatch c (config server') = configsMatch c (config serverS1)))"
proof -
  have h1: "getById repo2 ''s1'' = Some serverS1"
    by (simp add: getById_def repo2_def)
  have h2: "proxy (config serverS1) = Some proxyH"
    by (simp add: serverS1_def staticH_def)
  from rename_sets_names_only [OF h1 h2, of "''Home''"] h1 h2 show ?thesis
    by blast
qed

section \<open>Migration and loading\<close>

lemma migrateLoop_plain:
  "\<not> hidesHasOwnProperty configByIdV0 \<Longrightarrow>
   migrateLoop configByIdV0 entries acc = Inr (fold migrateEntry entries acc)"
  by (induction entries arbitrary: acc) simp_all

lemma migrateLoop_hidden:
  "hidesHasOwnProperty configByIdV0 \<Longrightarrow> entries \<noteq> [] \<Longrightarrow>
   migrateLoop configByIdV0 entries acc = Inl TypeError"
  by (cases entries) simp_all

lemma loadLoop_plain:
  "\<not> hidesHasOwnProperty configById \<Longrightarrow>
   loadLoop createServer configById entries m = (None, fold (loadEntry createServer) entries m)"
  by (induction entries arbitrary: m) simp_all

lemma loadLoop_hidden:
  "hidesHasOwnProperty configById \<Longrightarrow> entries \<noteq> [] \<Longrightarrow>
   loadLoop createServer configById entries m = (Some TypeError, m)"
  by (cases entries) simp_all

lemma hidesHasOwnProperty_nonempty: "hidesHasOwnProperty obj \<Longrightarrow> obj \<noteq> []"
  by (auto simp: hidesHasOwnProperty_def)

lemma fold_migrateEntry:
  "distinct (map fst acc @ map fst xs) \<Longrightarrow> jsOrdered (map fst acc @ map fst xs) \<Longrightarrow>
   fold migrateEntry xs acc =
     acc @ map (\<lambda>(serverId, p). (serverId, \<lparr>name = proxy_name p, proxy = Some p, source = None\<rparr>))
             (filter (\<lambda>e. fst e \<noteq> ''__proto__'') xs)"
proof (induction xs arbitrary: acc)
  case Nil
  then show ?case by simp
next
  case (Cons x xs)
  obtain k p where x: "x = (k, p)"
    by (cases x)
  show ?case
  proof (cases "k = ''__proto__''")
    case True
    have step: "migrateEntry (''__proto__'', p) acc = acc"
      by (simp add: migrateEntry_def objSet_def)
    from Cons.prems have "distinct (map fst acc @ map fst xs)"
      and "jsOrdered (map fst acc @ map fst xs)"
      by (auto simp: x jsOrdered_def sorted_wrt_append)
    from Cons.IH [OF this] True show ?thesis
      by (simp add: step x)
  next
    case False
    from Cons.prems have fresh: "k \<notin> set (map fst acc)"
      by (auto simp: x)
    from Cons.prems have last: "\<forall>e \<in> set acc. \<not> comesBefore k (fst e)"
      by (auto simp: x jsOrdered_def sorted_wrt_append)
    have step: "migrateEntry (k, p) acc =
        acc @ [(k, \<lparr>name = proxy_name p, proxy = Some p, source = None\<rparr>)]"
      by (simp add: migrateEntry_def objSet_fresh [OF False fresh last])
    from Cons.prems have "distinct (map fst (migrateEntry (k, p) acc) @ map fst xs)"
      and "jsOrdered (map fst (migrateEntry (k, p) acc) @ map fst xs)"
      unfolding step x by simp_all
    from Cons.IH [OF this] False show ?thesis
      by (simp add: step x)
  qed
qed

lemma migrateStorageV1_migrated:
  "truthy (servers_v1 st) \<Longrightarrow> migrateStorageV1 st = (None, st)"
  by (simp add: migrateStorageV1_def)

lemma loadServers_parsed:
  "servers_v1 (storage r) = Some (Json configById) \<Longrightarrow> \<not> hidesHasOwnProperty configById \<Longrightarrow>
   loadServers createServer r =
     (None, r\<lparr>serverById := fold (loadEntry createServer) configById []\<rparr>)"
  by (simp add: loadServers_def loadLoop_plain)

text \<open>
  Migration away from the two ids: a legacy record as \<open>JSON.parse\<close> returns it (ids
  distinct and in enumeration order) that has no id \<open>'hasOwnProperty'\<close>, and no current
  record. Construction returns without throwing; the storage then holds under the
  current key the record that maps each id but \<open>'__proto__'\<close> to \<open>{proxy, name}\<close>,
  \<open>name\<close> being the name inside the proxy; the legacy record is left alone; migrating
  again changes nothing, whatever the legacy key holds by then.
\<close>

lemma construction_migrates_plain_record:
  assumes "servers st = Some (Json configByIdV0)" and "servers_v1 st = None"
    and "distinct (map fst configByIdV0)" and "jsOrdered (map fst configByIdV0)"
    and "''hasOwnProperty'' \<notin> set (map fst configByIdV0)"
  shows "\<exists>r. newRepository createServer q st = (None, r) \<and>
           servers_v1 (storage r) =
             Some (Json (map (\<lambda>(serverId, p).
                    (serverId, \<lparr>name = proxy_name p, proxy = Some p, source = None\<rparr>))
                  (filter (\<lambda>e. fst e \<noteq> ''__proto__'') configByIdV0))) \<and>
           servers (storage r) = servers st \<and>
           migrateStorageV1 (storage r) = (None, storage r) \<and>
           (\<forall>legacy. migrateStorageV1 ((storage r)\<lparr>servers := legacy\<rparr>) =
                       (None, (storage r)\<lparr>servers := legacy\<rparr>))"
proof -
  let ?v1 = "map (\<lambda>(serverId, p).
      (serverId, \<lparr>name = proxy_name p, proxy = Some p, source = None\<rparr>))
      (filter (\<lambda>e. fst e \<noteq> ''__proto__'') configByIdV0)"
  let ?st = "st\<lparr>servers_v1 := Some (Json ?v1)\<rparr>"
  let ?r = "\<lparr>serverById = fold (loadEntry createServer) ?v1 [],
            lastForgottenServer = None, eventQueue = q, storage = ?st\<rparr>"
  from assms(5) have plain: "\<not> hidesHasOwnProperty configByIdV0"
    by (simp add: hidesHasOwnProperty_def)
  have "fold migrateEntry configByIdV0 [] = ?v1"
    using fold_migrateEntry [of "[]" configByIdV0] assms(3,4) by simp
  with assms(1,2) plain have mig: "migrateStorageV1 st = (None, ?st)"
    by (simp add: migrateStorageV1_def migrateLoop_plain)
  have "map fst ?v1 = filter (\<lambda>k. k \<noteq> ''__proto__'') (map fst configByIdV0)"
    by (induction configByIdV0) auto
  with assms(5) have "\<not> hidesHasOwnProperty ?v1"
    by (simp add: hidesHasOwnProperty_def)
  then have "newRepository createServer q st = (None, ?r)"
    by (simp add: newRepository_def mig loadServers_parsed)
  moreover have "servers_v1 (storage ?r) = Some (Json ?v1)"
    and "servers (storage ?r) = servers st"
    by simp_all
  moreover have "migrateStorageV1 (storage ?r) = (None, storage ?r)"
    by (simp add: migrateStorageV1_migrated)
  moreover have "\<forall>legacy. migrateStorageV1 ((storage ?r)\<lparr>servers := legacy\<rparr>) =
      (None, (storage ?r)\<lparr>servers := legacy\<rparr>)"
    by (simp add: migrateStorageV1_migrated)
  ultimately show ?thesis
    by blast
qed

text \<open>The migration example of the specification.\<close>

lemma construction_migrates_example:
  "\<exists>r. newRepository exampleFactory [] legacyStorage = (None, r) \<and>
      storage r =
        \<lparr>servers = Some (Json [(''s1'', proxyH)]),
         servers_v1 =
           Some (Json [(''s1'', \<lparr>name = Some ''N'', proxy = Some proxyH, source = None\<rparr>)])\<rparr> \<and>
      migrateStorageV1 (storage r) = (None, storage r)"
proof -
  have "servers legacyStorage = Some (Json [(''s1'', proxyH)])"
    and "servers_v1 legacyStorage = None"
    and "distinct (map fst [(''s1'', proxyH)])" and "jsOrdered (map fst [(''s1'', proxyH)])"
    and "''hasOwnProperty'' \<notin> set (map fst [(''s1'', proxyH)])"
    by (simp_all add: legacyStorage_def jsOrdered_def)
  from construction_migrates_plain_record [OF this, of exampleFactory "[]"]
  obtain r where r: "newRepository exampleFactory [] legacyStorage = (None, r)"
    and "servers_v1 (storage r) =
        Some (Json [(''s1'', \<lparr>name = proxy_name proxyH, proxy = Some proxyH, source = None\<rparr>)])"
    and "servers (storage r) = servers legacyStorage"
    and again: "migrateStorageV1 (storage r) = (None, storage r)"
    by auto
  then have "storage r =
        \<lparr>servers = Some (Json [(''s1'', proxyH)]),
         servers_v1 =
           Some (Json [(''s1'', \<lparr>name = Some ''N'', proxy = Some proxyH, source = None\<rparr>)])\<rparr>"
    by (cases "storage r") (simp add: legacyStorage_def proxyH_def)
  with r again show ?thesis
    by blast
qed

text \<open>
  Claim C5 fails on the code for a legacy record with the id \<open>'hasOwnProperty'\<close>: the
  first round of the migration loop calls \<open>configByIdV0.hasOwnProperty\<close>, which is the
  proxy stored under that id, and the \<open>TypeError\<close> leaves the constructor with nothing
  written under the current key. For a legacy record with the id \<open>'__proto__'\<close>
  construction returns, and the record written under the current key is empty.
\<close>

theorem construction_legacy_hasOwnProperty_throws:
  "servers shadowedLegacy = Some (Json [(''hasOwnProperty'', proxyH)]) \<and>
   servers_v1 shadowedLegacy = None \<and>
   newRepository exampleFactory [] shadowedLegacy =
     (Some TypeError,
      \<lparr>serverById = [], lastForgottenServer = None, eventQueue = [],
       storage = shadowedLegacy\<rparr>) \<and>
   servers protoLegacy = Some (Json [(''__proto__'', proxyH)]) \<and>
   servers_v1 protoLegacy = None \<and>
   newRepository exampleFactory [] protoLegacy =
     (None,
      \<lparr>serverById = [], lastForgottenServer = None, eventQueue = [],
       storage = protoLegacy\<lparr>servers_v1 := Some (Json [])\<rparr>\<rparr>)"
  by (simp add: newRepository_def migrateStorageV1_def loadServers_def migrateEntry_def
      objSet_def hidesHasOwnProperty_def shadowedLegacy_def protoLegacy_def)

text \<open>
  Loading away from the id \<open>'hasOwnProperty'\<close>: when the current record parses and
  holds two entries, neither under that id, one the factory fails on and one it builds
  a server from (in either order), construction returns without throwing and the map
  holds exactly one entry: the valid id with the server built from it, tagged
  \<open>unsupported-cipher\<close> when its cipher is not supported.
\<close>

lemma construction_skips_failing_entry:
  assumes "createServer badId badConfig = Inl e"
    and "createServer goodId goodConfig = Inr server"
    and "servers_v1 st = Some (Json [(badId, badConfig), (goodId, goodConfig)]) \<or>
         servers_v1 st = Some (Json [(goodId, goodConfig), (badId, badConfig)])"
    and "badId \<noteq> ''hasOwnProperty''" and "goodId \<noteq> ''hasOwnProperty''"
  shows "\<exists>r. newRepository createServer q st = (None, r) \<and>
           serverById r =
             [(goodId, if isServerCipherSupported (config server) then server
                       else server\<lparr>errorMessageId := Some ''unsupported-cipher''\<rparr>)] \<and>
           storage r = st \<and> eventQueue r = q"
proof -
  from assms(3) obtain configById where rec: "servers_v1 st = Some (Json configById)"
    and entries: "configById = [(badId, badConfig), (goodId, goodConfig)] \<or>
                  configById = [(goodId, goodConfig), (badId, badConfig)]"
    by blast
  from entries assms(4,5) have plain: "\<not> hidesHasOwnProperty configById"
    by (auto simp: hidesHasOwnProperty_def)
  have bad: "loadEntry createServer (badId, badConfig) m = m" for m
    by (simp add: loadEntry_def assms(1))
  have good: "loadEntry createServer (goodId, goodConfig) [] =
      [(goodId, if isServerCipherSupported (config server) then server
                else server\<lparr>errorMessageId := Some ''unsupported-cipher''\<rparr>)]"
    by (simp add: loadEntry_def assms(2))
  from entries have loaded: "fold (loadEntry createServer) configById [] =
      [(goodId, if isServerCipherSupported (config server) then server
                else server\<lparr>errorMessageId := Some ''unsupported-cipher''\<rparr>)]"
    by (auto simp: bad good)
  have "migrateStorageV1 st = (None, st)"
    by (simp add: migrateStorageV1_migrated rec)
  then have "newRepository createServer q st =
      (None, \<lparr>serverById = fold (loadEntry createServer) configById [],
              lastForgottenServer = None, eventQueue = q, storage = st\<rparr>)"
    by (simp add: newRepository_def loadServers_parsed rec plain)
  with loaded show ?thesis
    by simp
qed

lemma construction_skips_failing_example:
  "\<exists>r. newRepository exampleFactory [] mixedStorage = (None, r) \<and>
      serverById r = [(''s1'', serverS1)] \<and> storage r = mixedStorage \<and> eventQueue r = []"
proof -
  have h1: "exampleFactory ''bad'' malformed = Inl IllegalServerConfiguration"
    by (simp add: exampleFactory_def malformed_def)
  have h2: "exampleFactory ''s1'' staticH = Inr serverS1"
    by (simp add: exampleFactory_def staticH_def serverS1_def)
  have h3: "servers_v1 mixedStorage = Some (Json [(''bad'', malformed), (''s1'', staticH)])"
    by (simp add: mixedStorage_def)
  have h4: "isServerCipherSupported (config serverS1)"
    by (simp add: isServerCipherSupported_def OutlineServer_isServerCipherSupported_def
        SUPPORTED_CIPHERS_def serverS1_def staticH_def proxyH_def)
  from construction_skips_failing_entry [OF h1 h2 disjI1, OF h3, of "[]"] h4
  show ?thesis
    by simp
qed

text \<open>
  Claim C6 fails on the code for a current record that holds the failing entry under
  the id \<open>'hasOwnProperty'\<close> next to a valid entry: the first round of the loop of
  \<open>loadServers\<close> calls \<open>configById.hasOwnProperty\<close>, which is the config stored under
  that id, outside the inner \<open>try\<close>; the \<open>TypeError\<close> leaves the constructor and the
  map is empty, the valid entry not loaded.
\<close>

theorem construction_current_hasOwnProperty_throws:
  "exampleFactory ''hasOwnProperty'' malformed = Inl IllegalServerConfiguration \<and>
   exampleFactory ''s1'' staticH = Inr serverS1 \<and>
   servers_v1 shadowedStorage =
     Some (Json [(''hasOwnProperty'', malformed), (''s1'', staticH)]) \<and>
   newRepository exampleFactory [] shadowedStorage =
     (Some TypeError,
      \<lparr>serverById = [], lastForgottenServer = None, eventQueue = [],
       storage = shadowedStorage\<rparr>)"
  by (simp add: newRepository_def migrateStorageV1_def loadServers_def
      hidesHasOwnProperty_def shadowedStorage_def exampleFactory_def malformed_def
      staticH_def serverS1_def)

section \<open>Connecting\<close>

lemma tryConnect_source:
  assumes "\<forall>c. source (snd (fetchProxyConfig c)) = source c"
    and "\<forall>c. source (snd (start c)) = source c"
    and "tryConnect fetchProxyConfig start c = (thrown, c')"
  shows "source c' = source c"
proof -
  have f: "source c1 = source c0" if "fetchProxyConfig c0 = (res, c1)" for c0 res c1
    using assms(1) that by (metis snd_conv)
  have s: "source c1 = source c0" if "start c0 = (res, c1)" for c0 res c1
    using assms(2) that by (metis snd_conv)
  from assms(3) show ?thesis
    by (auto simp: tryConnect_def Let_def dest!: f s
        split: if_splits prod.splits completion.splits option.splits)
qed

lemma connect_thrown:
  "tryConnect fetchProxyConfig start (config s) = (Some e, c) \<Longrightarrow>
   connect errorCode fromErrorCode fetchProxyConfig start s =
     (Some (rethrow errorCode fromErrorCode e),
      s\<lparr>config := (if source c \<noteq> None then c\<lparr>proxy := None\<rparr> else c)\<rparr>)"
  by (simp add: connect_def)

lemma connect_Some:
  "connect errorCode fromErrorCode fetchProxyConfig start s = (Some e, s') \<Longrightarrow>
   \<exists>e0 c. tryConnect fetchProxyConfig start (config s) = (Some e0, c) \<and>
          s' = s\<lparr>config := (if source c \<noteq> None then c\<lparr>proxy := None\<rparr> else c)\<rparr>"
proof -
  assume a: "connect errorCode fromErrorCode fetchProxyConfig start s = (Some e, s')"
  obtain thrown c where t: "tryConnect fetchProxyConfig start (config s) = (thrown, c)"
    by (cases "tryConnect fetchProxyConfig start (config s)")
  show ?thesis
  proof (cases thrown)
    case None
    with a t show ?thesis
      by (simp add: connect_def)
  next
    case (Some e0)
    with a t have "s' = s\<lparr>config := (if source c \<noteq> None then c\<lparr>proxy := None\<rparr> else c)\<rparr>"
      by (simp add: connect_def)
    with t Some show ?thesis
      by blast
  qed
qed

text \<open>
  Claim C7: for a server whose config carries a source, and a tunnel whose
  \<open>fetchProxyConfig\<close> and \<open>start\<close> leave \<open>config.source\<close> alone (the typings let
  them set \<open>config.proxy\<close>): whenever \<open>connect\<close> throws, the config has no proxy
  afterwards; and a failure of the fetch (it throws, or resolves to \<open>undefined\<close> so that
  indexing throws a \<open>TypeError\<close>) or of the start makes \<open>connect\<close> throw that error,
  translated by \<open>fromErrorCode\<close> when it carries a non-zero \<open>errorCode\<close>.
\<close>

theorem connect_failure_discards_proxy:
  assumes "source (config s) \<noteq> None"
    and "\<forall>c. source (snd (fetchProxyConfig c)) = source c"
    and "\<forall>c. source (snd (start c)) = source c"
  shows "(\<forall>e s'. connect errorCode fromErrorCode fetchProxyConfig start s = (Some e, s')
            \<longrightarrow> proxy (config s') = None) \<and>
         (\<forall>e0. fst (fetchProxyConfig (config s)) = Throws e0 \<longrightarrow>
            fst (connect errorCode fromErrorCode fetchProxyConfig start s) =
              Some (rethrow errorCode fromErrorCode e0)) \<and>
         (fst (fetchProxyConfig (config s)) = Returns None \<longrightarrow>
            fst (connect errorCode fromErrorCode fetchProxyConfig start s) =
              Some (rethrow errorCode fromErrorCode TypeError)) \<and>
         (\<forall>proxies c1 e0.
            fetchProxyConfig (config s) = (Returns (Some proxies), c1) \<and>
            fst (start (c1\<lparr>proxy := first proxies\<rparr>)) = Throws e0 \<longrightarrow>
            fst (connect errorCode fromErrorCode fetchProxyConfig start s) =
              Some (rethrow errorCode fromErrorCode e0))"
proof (intro conjI allI impI)
  fix e s'
  assume "connect errorCode fromErrorCode fetchProxyConfig start s = (Some e, s')"
  then obtain e0 c where t: "tryConnect fetchProxyConfig start (config s) = (Some e0, c)"
    and s': "s' = s\<lparr>config := (if source c \<noteq> None then c\<lparr>proxy := None\<rparr> else c)\<rparr>"
    using connect_Some by blast
  from tryConnect_source [OF assms(2,3) t] assms(1) have "source c \<noteq> None"
    by simp
  with s' show "proxy (config s') = None"
    by simp
next
  fix e0
  assume "fst (fetchProxyConfig (config s)) = Throws e0"
  then obtain c1 where "fetchProxyConfig (config s) = (Throws e0, c1)"
    by (cases "fetchProxyConfig (config s)") simp
  with assms(1) have "tryConnect fetchProxyConfig start (config s) = (Some e0, c1)"
    by (simp add: tryConnect_def)
  then show "fst (connect errorCode fromErrorCode fetchProxyConfig start s) =
      Some (rethrow errorCode fromErrorCode e0)"
    by (simp add: connect_thrown)
next
  assume "fst (fetchProxyConfig (config s)) = Returns None"
  then obtain c1 where "fetchProxyConfig (config s) = (Returns None, c1)"
    by (cases "fetchProxyConfig (config s)") simp
  with assms(1) have "tryConnect fetchProxyConfig start (config s) = (Some TypeError, c1)"
    by (simp add: tryConnect_def)
  then show "fst (connect errorCode fromErrorCode fetchProxyConfig start s) =
      Some (rethrow errorCode fromErrorCode TypeError)"
    by (simp add: connect_thrown)
next
  fix proxies c1 e0
  assume a: "fetchProxyConfig (config s) = (Returns (Some proxies), c1) \<and>
    fst (start (c1\<lparr>proxy := first proxies\<rparr>)) = Throws e0"
  then obtain c2 where "start (c1\<lparr>proxy := first proxies\<rparr>) = (Throws e0, c2)"
    by (cases "start (c1\<lparr>proxy := first proxies\<rparr>)") simp
  with a assms(1) have "tryConnect fetchProxyConfig start (config s) = (Some e0, c2)"
    by (simp add: tryConnect_def)
  then show "fst (connect errorCode fromErrorCode fetchProxyConfig start s) =
      Some (rethrow errorCode fromErrorCode e0)"
    by (simp add: connect_thrown)
qed

lemma electron_fetchProxyConfig_source:
  "\<forall>c. source (snd (electron_fetchProxyConfig reply c)) = source c"
  by (simp add: electron_fetchProxyConfig_def split: sum.splits)

lemma electron_start_source: "\<forall>c. source (snd (electron_start running reply c)) = source c"
  by (simp add: electron_start_def split: sum.splits)

lemma fake_fetchProxyConfig_source: "\<forall>c. source (snd (fake_fetchProxyConfig c)) = source c"
  by (simp add: fake_fetchProxyConfig_def)

theorem connect_failure_discards_proxy_witness:
  "source (config serverS2) \<noteq> None \<and>
   connect exampleErrorCode exampleFromErrorCode (electron_fetchProxyConfig (Inr [proxyH]))
     (electron_start False (Inr ())) serverS2 = (Some TypeError, serverS2) \<and>
   proxy (config serverS2) = None \<and>
   fst (connect exampleErrorCode exampleFromErrorCode
          (electron_fetchProxyConfig (Inl (Code 5))) (electron_start False (Inr ())) serverS2)
     = Some (OutlinePluginError 5) \<and>
   fst (connect exampleErrorCode exampleFromErrorCode fake_fetchProxyConfig
          (electron_start False (Inl (Err (NativeError (Some 7))))) serverS2)
     = Some (OutlinePluginError 7)"
proof -
  have h: "source (config serverS2) \<noteq> None"
    by (simp add: serverS2_def dynamicA_def)
  have ev: "connect exampleErrorCode exampleFromErrorCode
      (electron_fetchProxyConfig (Inr [proxyH])) (electron_start False (Inr ())) serverS2
      = (Some TypeError, serverS2)"
    by (simp add: connect_def tryConnect_def electron_fetchProxyConfig_def first_def
        rethrow_def exampleErrorCode_def serverS2_def dynamicA_def)
  from connect_failure_discards_proxy
    [where errorCode = exampleErrorCode and fromErrorCode = exampleFromErrorCode
       and fetchProxyConfig = "electron_fetchProxyConfig (Inr [proxyH])"
       and start = "electron_start False (Inr ())",
     OF h electron_fetchProxyConfig_source electron_start_source] ev
  have rolled: "proxy (config serverS2) = None"
    by blast
  have "fst (electron_fetchProxyConfig (Inl (Code 5)) (config serverS2))
      = Throws (OutlinePluginError 5)"
    by (simp add: electron_fetchProxyConfig_def handleMainProcessError_def serverS2_def
        dynamicA_def)
  with connect_failure_discards_proxy
    [where errorCode = exampleErrorCode and fromErrorCode = exampleFromErrorCode
       and fetchProxyConfig = "electron_fetchProxyConfig (Inl (Code 5))"
       and start = "electron_start False (Inr ())",
     OF h electron_fetchProxyConfig_source electron_start_source]
  have fetch: "fst (connect exampleErrorCode exampleFromErrorCode
      (electron_fetchProxyConfig (Inl (Code 5))) (electron_start False (Inr ())) serverS2)
      = Some (OutlinePluginError 5)"
    by (simp add: rethrow_def exampleErrorCode_def exampleFromErrorCode_def)
  have "\<exists>proxies c1. fake_fetchProxyConfig (config serverS2) = (Returns (Some proxies), c1) \<and>
      fst (electron_start False (Inl (Err (NativeError (Some 7)))) (c1\<lparr>proxy := first proxies\<rparr>))
        = Throws (NativeError (Some 7))"
    by (simp add: fake_fetchProxyConfig_def electron_start_def handleMainProcessError_def
        serverS2_def dynamicA_def)
  with connect_failure_discards_proxy
    [where errorCode = exampleErrorCode and fromErrorCode = exampleFromErrorCode
       and fetchProxyConfig = "fake_fetchProxyConfig"
       and start = "electron_start False (Inl (Err (NativeError (Some 7))))",
     OF h fake_fetchProxyConfig_source electron_start_source]
  have "fst (connect exampleErrorCode exampleFromErrorCode fake_fetchProxyConfig
      (electron_start False (Inl (Err (NativeError (Some 7))))) serverS2)
      = Some (rethrow exampleErrorCode exampleFromErrorCode (NativeError (Some 7)))"
    by blast
  then have start: "fst (connect exampleErrorCode exampleFromErrorCode fake_fetchProxyConfig
      (electron_start False (Inl (Err (NativeError (Some 7))))) serverS2)
      = Some (OutlinePluginError 7)"
    by (simp add: rethrow_def exampleErrorCode_def exampleFromErrorCode_def)
  from h ev rolled fetch start show ?thesis
    by simp
qed

end
